theory Spec2Isabelle
  imports Complex_Main "HOL-Library.Multiset" "HOL-Library.Sublist"
begin

section \<open>JavaScript values used by the application\<close>

text \<open>
  A JavaScript string is a sequence of UTF-16 code units; \<open>length\<close>, \<open>includes\<close>, the
  regular expressions of \<open>toHalfWidth\<close> (no \<open>u\<close> flag) and the relational operators all
  work on code units. \<open>js\<close> writes an ASCII literal.  A JavaScript number is modelled as
  a real: the modelled code only stores, compares and tests numbers for falsiness, it
  performs no arithmetic on them, and \<open>NaN\<close> is left out.
\<close>

type_synonym jsstring = "nat list"

definition js :: "string \<Rightarrow> jsstring" where
  "js s = map of_char s"

text \<open>
  \<open>String.prototype.toLowerCase\<close> is a parameter \<open>toLowerCase\<close> of the functions that
  call it.  What is known of it is its value on the strings over the code units of
  \<open>table_unit\<close>: ASCII, the Japanese punctuation, Hiragana and Katakana (3000 to 30FF),
  the CJK ideographs (4E00 to 9FFF) and the half-width and full-width forms (FF00 to
  FFEF).  There it works code unit by code unit: the capital letters A to Z and their
  full-width forms (FF21 to FF3A) move up by 32 to the small letters, every other code
  unit stays.  Outside that table nothing is assumed of it.
\<close>

definition upper_unit :: "nat \<Rightarrow> bool" where
  "upper_unit u = ((65 \<le> u \<and> u \<le> 90) \<or> (0xFF21 \<le> u \<and> u \<le> 0xFF3A))"

definition lower_unit :: "nat \<Rightarrow> nat" where
  "lower_unit u = (if upper_unit u then u + 32 else u)"




text \<open>The function that applies the table to every code unit.\<close>

definition toLowerCase_table :: "jsstring \<Rightarrow> jsstring" where
  "toLowerCase_table s = map lower_unit s"

text \<open>\<open>s.includes(q)\<close>: \<open>q\<close> occurs in \<open>s\<close> as a contiguous run of code units.\<close>

fun str_includes :: "jsstring \<Rightarrow> jsstring \<Rightarrow> bool" where
  "str_includes [] q = (q = [])"
| "str_includes (u # s) q = (prefix q (u # s) \<or> str_includes s q)"

text \<open>\<open>a < b\<close> on two strings: lexicographic on code units, a proper prefix is smaller.\<close>

fun str_less :: "jsstring \<Rightarrow> jsstring \<Rightarrow> bool" where
  "str_less [] [] = False"
| "str_less [] (v # b) = True"
| "str_less (u # a) [] = False"
| "str_less (u # a) (v # b) = (u < v \<or> (u = v \<and> str_less a b))"

text \<open>
  \<open>a < b\<close> on two optional numbers: \<open>undefined\<close> converts to \<open>NaN\<close>, and every
  comparison with \<open>NaN\<close> is false.
\<close>

fun optnum_less :: "real option \<Rightarrow> real option \<Rightarrow> bool" where
  "optnum_less (Some x) (Some y) = (x < y)"
| "optnum_less _ _ = False"

section \<open>Data model (types.ts)\<close>

datatype contract_type = basic | premium | custom

fun contract_type_string :: "contract_type \<Rightarrow> jsstring" where
  "contract_type_string basic = js ''basic''"
| "contract_type_string premium = js ''premium''"
| "contract_type_string custom = js ''custom''"

text \<open>
  \<open>created_at\<close> and \<open>updated_at\<close> hold \<open>new Date().toISOString()\<close>; a timestamp is
  modelled by the clock reading it renders, in milliseconds (the strings, all of one
  format, are ordered as the readings are).
\<close>

type_synonym timestamp = nat

record customer =
  id_c :: jsstring
  name :: jsstring
  postal_code :: jsstring
  address :: jsstring
  phone :: jsstring
  email :: jsstring
  contract_type :: contract_type
  snow_removal_area :: real
  contract_start_date :: jsstring
  contract_end_date :: jsstring
  billing_amount :: real
  lat :: "real option"
  lng :: "real option"
  created_at :: timestamp
  updated_at :: timestamp

record SearchParams =
  sp_id :: "jsstring option"
  sp_name :: "jsstring option"
  sp_postal_code :: "jsstring option"
  sp_address :: "jsstring option"
  sp_phone :: "jsstring option"
  sp_contract_type :: "jsstring option"

text \<open>\<open>keyof Customer\<close>, the type of \<open>sortField\<close>.\<close>

datatype customer_key =
  key_id | key_name | key_postal_code | key_address | key_phone | key_email
  | key_contract_type | key_snow_removal_area | key_contract_start_date
  | key_contract_end_date | key_billing_amount | key_lat | key_lng
  | key_created_at | key_updated_at

datatype sort_direction = asc | desc

section \<open>Arrays by reference\<close>

text \<open>
  \<open>Array.prototype.filter\<close> returns a new array; \<open>Array.prototype.sort\<close> sorts the array
  it is called on and returns that same array.  The store maps a reference to the
  elements of the array it denotes; \<open>next_ref\<close> is the first unused reference.
\<close>

type_synonym ref = nat

record heap =
  arrays :: "ref \<Rightarrow> customer list"
  next_ref :: ref

definition Array_filter :: "(customer \<Rightarrow> bool) \<Rightarrow> ref \<Rightarrow> heap \<Rightarrow> ref \<times> heap" where
  "Array_filter p r h =
     (next_ref h,
      h\<lparr>arrays := (arrays h)(next_ref h := filter p (arrays h r)),
        next_ref := Suc (next_ref h)\<rparr>)"

text \<open>
  The order of the elements after \<open>sort\<close> is the engine's: \<open>Array.prototype.sort\<close> is a
  parameter \<open>srt\<close> of the functions that call it, from a comparator and the elements
  to the elements in their new order.
\<close>

type_synonym 'a array_sort = "('a \<Rightarrow> 'a \<Rightarrow> int) \<Rightarrow> 'a list \<Rightarrow> 'a list"

definition Array_sort ::
  "customer array_sort \<Rightarrow> (customer \<Rightarrow> customer \<Rightarrow> int) \<Rightarrow> ref \<Rightarrow> heap \<Rightarrow> ref \<times> heap" where
  "Array_sort srt cmp r h = (r, h\<lparr>arrays := (arrays h)(r := srt cmp (arrays h r))\<rparr>)"

text \<open>
  What ECMAScript (2019) requires of \<open>sort\<close>.  A comparator is consistent on a set of
  values when it orders them as a total preorder does: \<open>cmp a b\<close> is negative exactly
  when \<open>cmp b a\<close> is positive, and "not greater" is transitive.  The result of \<open>sort\<close> is
  always a rearrangement of the elements; for a comparator that is consistent on them
  it is ordered by the comparator, and stable: two elements that compare equal keep
  their relative order.  For a comparator that is not consistent the order is left to
  the implementation.
\<close>

definition consistent :: "('a \<Rightarrow> 'a \<Rightarrow> int) \<Rightarrow> 'a set \<Rightarrow> bool" where
  "consistent cmp A \<longleftrightarrow>
     (\<forall>a\<in>A. \<forall>b\<in>A. (cmp a b < 0 \<longleftrightarrow> 0 < cmp b a))
     \<and> (\<forall>a\<in>A. \<forall>b\<in>A. \<forall>c\<in>A. cmp a b \<le> 0 \<and> cmp b c \<le> 0 \<longrightarrow> cmp a c \<le> 0)"



text \<open>
  The sort of the V8 engine (\<open>ArrayTimSortImpl\<close>) for an array of fewer than 64
  elements, which it treats as one run: \<open>CountAndMakeRun\<close> takes the longest initial
  stretch that is non-descending, or strictly descending and then reversed, and
  \<open>BinaryInsertionSort\<close> inserts the remaining elements one by one at the position a
  binary search of the sorted part gives.  (A longer array is cut into such runs, which
  are then merged; on a longer array this function is the sort by binary insertion
  still, which orders it as ECMAScript requires.)
\<close>

fun extend_run :: "('a \<Rightarrow> 'a \<Rightarrow> int) \<Rightarrow> bool \<Rightarrow> 'a \<Rightarrow> 'a list \<Rightarrow> nat" where
  "extend_run cmp isDescending previousElement [] = 0"
| "extend_run cmp isDescending previousElement (currentElement # rest) =
     (let order = cmp currentElement previousElement
      in if isDescending then (if order \<ge> 0 then 0
                               else Suc (extend_run cmp isDescending currentElement rest))
         else (if order < 0 then 0
               else Suc (extend_run cmp isDescending currentElement rest)))"

fun CountAndMakeRun :: "('a \<Rightarrow> 'a \<Rightarrow> int) \<Rightarrow> 'a list \<Rightarrow> 'a list \<times> 'a list" where
  "CountAndMakeRun cmp [] = ([], [])"
| "CountAndMakeRun cmp [x] = ([x], [])"
| "CountAndMakeRun cmp (elementHigh # elementLow # rest) =
     (let isDescending = (cmp elementLow elementHigh < 0);
          runLength = 2 + extend_run cmp isDescending elementLow rest;
          run = take runLength (elementHigh # elementLow # rest)
      in (if isDescending then rev run else run,
          drop runLength (elementHigh # elementLow # rest)))"

function binary_search :: "('a \<Rightarrow> 'a \<Rightarrow> int) \<Rightarrow> 'a \<Rightarrow> 'a list \<Rightarrow> nat \<Rightarrow> nat \<Rightarrow> nat" where
  "binary_search cmp pivot work left right =
     (if left < right
      then (let mid = left + (right - left) div 2
            in if cmp pivot (work ! mid) < 0
               then binary_search cmp pivot work left mid
               else binary_search cmp pivot work (mid + 1) right)
      else left)"
  by pat_completeness auto
termination
  by (relation "measure (\<lambda>(cmp, pivot, work, left, right). right - left)") auto

declare binary_search.simps [simp del]

fun BinaryInsertionSort :: "('a \<Rightarrow> 'a \<Rightarrow> int) \<Rightarrow> 'a list \<Rightarrow> 'a list \<Rightarrow> 'a list" where
  "BinaryInsertionSort cmp work [] = work"
| "BinaryInsertionSort cmp work (pivot # rest) =
     (let left = binary_search cmp pivot work 0 (length work)
      in BinaryInsertionSort cmp (take left work @ pivot # drop left work) rest)"

definition v8_sort :: "'a array_sort" where
  "v8_sort cmp xs =
     (if length xs < 2 then xs
      else BinaryInsertionSort cmp (fst (CountAndMakeRun cmp xs)) (snd (CountAndMakeRun cmp xs)))"

section \<open>Search/Filter Engine (CustomerList)\<close>

text \<open>\<open>aValue < bValue\<close> for \<open>aValue = a[sortField]\<close> and \<open>bValue = b[sortField]\<close>.\<close>

fun field_less :: "customer_key \<Rightarrow> customer \<Rightarrow> customer \<Rightarrow> bool" where
  "field_less key_id a b = str_less (id_c a) (id_c b)"
| "field_less key_name a b = str_less (name a) (name b)"
| "field_less key_postal_code a b = str_less (postal_code a) (postal_code b)"
| "field_less key_address a b = str_less (address a) (address b)"
| "field_less key_phone a b = str_less (phone a) (phone b)"
| "field_less key_email a b = str_less (email a) (email b)"
| "field_less key_contract_type a b =
     str_less (contract_type_string (contract_type a)) (contract_type_string (contract_type b))"
| "field_less key_snow_removal_area a b = (snow_removal_area a < snow_removal_area b)"
| "field_less key_contract_start_date a b =
     str_less (contract_start_date a) (contract_start_date b)"
| "field_less key_contract_end_date a b =
     str_less (contract_end_date a) (contract_end_date b)"
| "field_less key_billing_amount a b = (billing_amount a < billing_amount b)"
| "field_less key_lat a b = optnum_less (lat a) (lat b)"
| "field_less key_lng a b = optnum_less (lng a) (lng b)"
| "field_less key_created_at a b = (created_at a < created_at b)"
| "field_less key_updated_at a b = (updated_at a < updated_at b)"

text \<open>The comparator handed to \<open>sort\<close>; \<open>aValue > bValue\<close> is \<open>bValue < aValue\<close>.\<close>

definition compare_customers ::
  "customer_key \<Rightarrow> sort_direction \<Rightarrow> customer \<Rightarrow> customer \<Rightarrow> int" where
  "compare_customers sortField sortDirection a b =
     (if field_less sortField a b then (if sortDirection = asc then - 1 else 1)
      else if field_less sortField b a then (if sortDirection = asc then 1 else - 1)
      else 0)"

text \<open>
  One \<open>if (searchParams.f) { filtered = filtered.filter(...) }\<close> step: the filter is
  applied when the predicate value is truthy, that is present and not the empty string.
\<close>

definition filter_if ::
  "jsstring option \<Rightarrow> (jsstring \<Rightarrow> customer \<Rightarrow> bool) \<Rightarrow> ref \<times> heap \<Rightarrow> ref \<times> heap" where
  "filter_if q p st =
     (case q of
        None \<Rightarrow> st
      | Some v \<Rightarrow> if v = [] then st else Array_filter (p v) (fst st) (snd st))"

definition filteredAndSortedCustomers ::
  "(jsstring \<Rightarrow> jsstring) \<Rightarrow> customer array_sort \<Rightarrow> ref \<Rightarrow> SearchParams \<Rightarrow> customer_key
   \<Rightarrow> sort_direction \<Rightarrow> heap \<Rightarrow> ref \<times> heap" where
  "filteredAndSortedCustomers toLowerCase srt customers searchParams sortField sortDirection h =
     (let st = (customers, h);
          st = filter_if (sp_name searchParams)
                 (\<lambda>v c. str_includes (toLowerCase (name c)) (toLowerCase v)) st;
          st = filter_if (sp_postal_code searchParams)
                 (\<lambda>v c. str_includes (postal_code c) v) st;
          st = filter_if (sp_address searchParams)
                 (\<lambda>v c. str_includes (toLowerCase (address c)) (toLowerCase v)) st;
          st = filter_if (sp_phone searchParams)
                 (\<lambda>v c. str_includes (phone c) v) st;
          st = filter_if (sp_contract_type searchParams)
                 (\<lambda>v c. contract_type_string (contract_type c) = v) st
      in Array_sort srt (compare_customers sortField sortDirection) (fst st) (snd st))"











text \<open>The records and the predicate sets of the examples.\<close>

definition blank_customer :: customer where
  "blank_customer =
     \<lparr>id_c = [], name = [], postal_code = [], address = [], phone = [], email = [],
      contract_type = basic, snow_removal_area = 0, contract_start_date = [],
      contract_end_date = [], billing_amount = 0, lat = None, lng = None,
      created_at = 0, updated_at = 0\<rparr>"

definition customer_A :: customer where
  "customer_A = blank_customer\<lparr>id_c := js ''a'', name := js ''A'', contract_type := basic\<rparr>"

definition customer_B :: customer where
  "customer_B = blank_customer\<lparr>id_c := js ''b'', name := js ''B'', contract_type := premium\<rparr>"









definition no_params :: SearchParams where
  "no_params =
     \<lparr>sp_id = None, sp_name = None, sp_postal_code = None, sp_address = None,
      sp_phone = None, sp_contract_type = None\<rparr>"

definition heap_of :: "customer list \<Rightarrow> heap" where
  "heap_of cs = \<lparr>arrays = (\<lambda>r. [])(0 := cs), next_ref = 1\<rparr>"

text \<open>A predicate value is truthy when it is present and not the empty string.\<close>

definition truthy :: "jsstring option \<Rightarrow> bool" where
  "truthy q = (case q of None \<Rightarrow> False | Some v \<Rightarrow> v \<noteq> [])"

section \<open>Map Synchronizer (CustomerMap)\<close>

record FilterOptions =
  contractType :: jsstring
  minSnowArea :: jsstring
  maxSnowArea :: jsstring
  minBilling :: jsstring
  maxBilling :: jsstring

text \<open>
  \<open>Number(s)\<close> is a parameter \<open>toNumber\<close> of the functions below, with \<open>None\<close> for
  \<open>NaN\<close>; \<open>x >= Number(s)\<close> and \<open>x <= Number(s)\<close> are false when \<open>Number(s)\<close> is
  \<open>NaN\<close>.  \<open>toLowerCase\<close> is a parameter as in the list.
\<close>

definition at_least :: "real \<Rightarrow> real option \<Rightarrow> bool" where
  "at_least x n = (case n of None \<Rightarrow> False | Some v \<Rightarrow> v \<le> x)"

definition at_most :: "real \<Rightarrow> real option \<Rightarrow> bool" where
  "at_most x n = (case n of None \<Rightarrow> False | Some v \<Rightarrow> x \<le> v)"

definition filteredCustomers ::
  "(jsstring \<Rightarrow> jsstring) \<Rightarrow> (jsstring \<Rightarrow> real option) \<Rightarrow> customer list \<Rightarrow> jsstring
   \<Rightarrow> FilterOptions \<Rightarrow> customer list" where
  "filteredCustomers toLowerCase toNumber customers searchQuery filters =
     filter (\<lambda>customer.
       let matchesSearch =
             (searchQuery = []
              \<or> str_includes (toLowerCase (name customer)) (toLowerCase searchQuery)
              \<or> str_includes (toLowerCase (address customer)) (toLowerCase searchQuery));
           matchesContractType =
             (contractType filters = []
              \<or> contract_type_string (contract_type customer) = contractType filters);
           matchesSnowArea =
             ((minSnowArea filters = []
               \<or> at_least (snow_removal_area customer) (toNumber (minSnowArea filters)))
              \<and> (maxSnowArea filters = []
               \<or> at_most (snow_removal_area customer) (toNumber (maxSnowArea filters))));
           matchesBilling =
             ((minBilling filters = []
               \<or> at_least (billing_amount customer) (toNumber (minBilling filters)))
              \<and> (maxBilling filters = []
               \<or> at_most (billing_amount customer) (toNumber (maxBilling filters))))
       in matchesSearch \<and> matchesContractType \<and> matchesSnowArea \<and> matchesBilling)
     customers"

text \<open>
  A marker as the synchronisation effect builds it: its position and title, the
  \<open>InfoWindow\<close> created with it (an object identity), and what its click listener
  captured, the record and the value \<open>activeInfoWindow\<close> had in the render whose effect
  created the marker.
\<close>

type_synonym infoWindow = nat

record marker =
  position :: "real option \<times> real option"
  title :: jsstring
  infoWindow :: infoWindow
  listener_customer :: customer
  listener_activeInfoWindow :: "infoWindow option"

text \<open>\<open>customer.lat != null && customer.lng != null\<close>\<close>

definition has_coordinates :: "customer \<Rightarrow> bool" where
  "has_coordinates customer = (lat customer \<noteq> None \<and> lng customer \<noteq> None)"

fun make_markers :: "infoWindow option \<Rightarrow> infoWindow \<Rightarrow> customer list \<Rightarrow> marker list" where
  "make_markers active w [] = []"
| "make_markers active w (customer # rest) =
     \<lparr>position = (lat customer, lng customer), title = name customer, infoWindow = w,
      listener_customer = customer, listener_activeInfoWindow = active\<rparr>
     # make_markers active (Suc w) rest"

text \<open>
  The component state (\<open>map\<close>, \<open>markers\<close>, \<open>activeInfoWindow\<close>) together with what the
  map collaborator shows: the popups that are open, and the positions of the last
  \<open>fitBounds\<close>.  \<open>selected\<close> lists the calls of \<open>onCustomerSelect\<close>.
\<close>

record map_sync =
  map_loaded :: bool
  markers :: "marker list"
  activeInfoWindow :: "infoWindow option"
  open_windows :: "infoWindow list"
  next_window :: infoWindow
  fitted :: "(real option \<times> real option) list option"
  selected :: "customer list"

definition close_window :: "infoWindow option \<Rightarrow> infoWindow list \<Rightarrow> infoWindow list" where
  "close_window active ws = (case active of None \<Rightarrow> ws | Some w \<Rightarrow> removeAll w ws)"

definition open_window :: "infoWindow \<Rightarrow> infoWindow list \<Rightarrow> infoWindow list" where
  "open_window w ws = (if w \<in> set ws then ws else w # ws)"

text \<open>
  The effect of lines 84 to 174.  It replaces the markers on the map by new ones, one
  for each displayed record that passes the coordinate test, and closes the popup that
  is the active one in this render.
\<close>

definition sync_markers ::
  "(jsstring \<Rightarrow> jsstring) \<Rightarrow> (jsstring \<Rightarrow> real option) \<Rightarrow> customer list \<Rightarrow> jsstring
   \<Rightarrow> FilterOptions \<Rightarrow> map_sync \<Rightarrow> map_sync" where
  "sync_markers toLowerCase toNumber customers searchQuery filters s =
     (if \<not> map_loaded s then s
      else
        let newMarkers =
              make_markers (activeInfoWindow s) (next_window s)
                (filter has_coordinates
                   (filteredCustomers toLowerCase toNumber customers searchQuery filters))
        in s\<lparr>markers := newMarkers,
             open_windows := close_window (activeInfoWindow s) (open_windows s),
             next_window := next_window s + length newMarkers,
             fitted := (if newMarkers \<noteq> [] then Some (map position newMarkers) else fitted s)\<rparr>)"

text \<open>
  The click listener of a marker; \<open>activeInfoWindow\<close> in its body is the value its
  closure captured when the effect created the marker.
\<close>

definition click_marker :: "marker \<Rightarrow> map_sync \<Rightarrow> map_sync" where
  "click_marker m s =
     s\<lparr>open_windows :=
         open_window (infoWindow m) (close_window (listener_activeInfoWindow m) (open_windows s)),
       activeInfoWindow := Some (infoWindow m),
       selected := selected s @ [listener_customer m]\<rparr>"

text \<open>
  The events of the component: the map has been loaded (\<open>setMap\<close>); a render with the
  given properties and filter state, followed by the effect; a click on the marker at
  a position of the marker list, which runs the listener of that marker (a click where
  no marker is does nothing).  When React renders after a state update is not the
  component's to decide: the events come in any order.
\<close>

datatype event = MapLoaded | Render "customer list" jsstring FilterOptions | Click nat

fun step ::
  "(jsstring \<Rightarrow> jsstring) \<Rightarrow> (jsstring \<Rightarrow> real option) \<Rightarrow> event \<Rightarrow> map_sync \<Rightarrow> map_sync" where
  "step toLowerCase toNumber MapLoaded s = s\<lparr>map_loaded := True\<rparr>"
| "step toLowerCase toNumber (Render customers searchQuery filters) s =
     sync_markers toLowerCase toNumber customers searchQuery filters s"
| "step toLowerCase toNumber (Click i) s =
     (if i < length (markers s) then click_marker (markers s ! i) s else s)"

definition run ::
  "(jsstring \<Rightarrow> jsstring) \<Rightarrow> (jsstring \<Rightarrow> real option) \<Rightarrow> event list \<Rightarrow> map_sync
   \<Rightarrow> map_sync" where
  "run toLowerCase toNumber es s = foldl (\<lambda>s e. step toLowerCase toNumber e s) s es"

definition no_filters :: FilterOptions where
  "no_filters =
     \<lparr>contractType = [], minSnowArea = [], maxSnowArea = [], minBilling = [], maxBilling = []\<rparr>"

definition initial_map :: map_sync where
  "initial_map =
     \<lparr>map_loaded = False, markers = [], activeInfoWindow = None, open_windows = [],
      next_window = 0, fitted = None, selected = []\<rparr>"

definition customer_Tokyo :: customer where
  "customer_Tokyo =
     blank_customer\<lparr>id_c := js ''t'', name := js ''T'', lat := Some 35.6762, lng := Some 139.6503\<rparr>"

definition customer_Sapporo :: customer where
  "customer_Sapporo =
     blank_customer\<lparr>id_c := js ''s'', name := js ''S'', lat := Some 43.0618, lng := Some 141.3545\<rparr>"

definition customer_Otaru :: customer where
  "customer_Otaru =
     blank_customer\<lparr>id_c := js ''o'', name := js ''O'', lat := Some 43.1907, lng := Some 140.9947\<rparr>"

subsection \<open>Route computation\<close>

text \<open>\<open>xs.slice(start, end)\<close> with its relative (negative) indices.\<close>

definition slice :: "int \<Rightarrow> int \<Rightarrow> 'a list \<Rightarrow> 'a list" where
  "slice start end xs =
     (let len = int (length xs);
          k = (if start < 0 then max (len + start) 0 else min start len);
          final = (if end < 0 then max (len + end) 0 else min end len)
      in take (nat (final - k)) (drop (nat k) xs))"

record waypoint =
  location :: "real option \<times> real option"
  stopover :: bool

datatype travelMode = DRIVING

record route_request =
  origin :: "real option \<times> real option"
  destination :: "real option \<times> real option"
  waypoints :: "waypoint list"
  optimizeWaypoints :: bool
  travel_mode :: travelMode

datatype 'r route_response = RouteResult 'r | RouteError

text \<open>
  \<open>calculateRoute\<close>: the requests it sends to the routing collaborator \<open>route\<close>, and the
  directions the renderer shows afterwards.  \<open>map\<close> and \<open>directionsRenderer\<close> tell
  whether the two objects exist.
\<close>

record 'r route_outcome =
  requests :: "route_request list"
  directions :: "'r option"

definition calculateRoute ::
  "bool \<Rightarrow> bool \<Rightarrow> customer list \<Rightarrow> (route_request \<Rightarrow> 'r route_response) \<Rightarrow> 'r option
   \<Rightarrow> 'r route_outcome" where
  "calculateRoute map_exists directionsRenderer selectedCustomers route shown =
     (if \<not> map_exists \<or> \<not> directionsRenderer \<or> length selectedCustomers < 2
      then \<lparr>requests = [], directions = shown\<rparr>
      else
        let origin = selectedCustomers ! 0;
            destination = selectedCustomers ! (length selectedCustomers - 1);
            waypoints = map (\<lambda>customer. \<lparr>location = (lat customer, lng customer), stopover = True\<rparr>)
                          (slice 1 (- 1) selectedCustomers);
            request = \<lparr>origin = (lat origin, lng origin),
                       destination = (lat destination, lng destination),
                       waypoints = waypoints, optimizeWaypoints = True, travel_mode = DRIVING\<rparr>
        in case route request of
             RouteResult result \<Rightarrow> \<lparr>requests = [request], directions = Some result\<rparr>
           | RouteError \<Rightarrow> \<lparr>requests = [request], directions = shown\<rparr>)"

text \<open>
  The selection: the options of the \<open>select\<close> element are the identifiers of the
  displayed records that pass the coordinate test, and its change handler keeps the
  displayed records whose identifier is among the selected option values.
\<close>

definition option_values :: "customer list \<Rightarrow> jsstring list" where
  "option_values displayed = map id_c (filter has_coordinates displayed)"

definition select_customers :: "jsstring list \<Rightarrow> customer list \<Rightarrow> customer list" where
  "select_customers selectedIds displayed = filter (\<lambda>c. id_c c \<in> set selectedIds) displayed"

text \<open>The displayed records and the event sequence of the examples.\<close>

definition displayed4 :: "customer list" where
  "displayed4 = [customer_Tokyo, customer_A, customer_Sapporo, customer_Otaru]"

definition two_clicks :: "event list" where
  "two_clicks =
     [MapLoaded, Render [customer_Tokyo, customer_A, customer_Sapporo] [] no_filters,
      Click 0, Click 1]"

definition click_render_click :: "event list" where
  "click_render_click =
     [MapLoaded, Render [customer_Tokyo, customer_A, customer_Sapporo] [] no_filters,
      Click 0, Render [customer_Tokyo, customer_A, customer_Sapporo] [] no_filters, Click 1]"

text \<open>
  The popups as an effect leaves them and a click on a marker of that effect finds
  them: an open popup is the active one, and no popup is listed twice.
\<close>

definition popup_inv :: "map_sync \<Rightarrow> bool" where
  "popup_inv s \<longleftrightarrow>
     set (open_windows s) \<subseteq> set_option (activeInfoWindow s) \<and> distinct (open_windows s)"

section \<open>Form Controller (CustomerForm)\<close>

text \<open>
  \<open>Partial<Customer>\<close>, the type of the draft \<open>formData\<close>: every field may be absent.
\<close>

record draft =
  p_id :: "jsstring option"
  p_name :: "jsstring option"
  p_postal_code :: "jsstring option"
  p_address :: "jsstring option"
  p_phone :: "jsstring option"
  p_email :: "jsstring option"
  p_contract_type :: "contract_type option"
  p_snow_removal_area :: "real option"
  p_contract_start_date :: "jsstring option"
  p_contract_end_date :: "jsstring option"
  p_billing_amount :: "real option"
  p_lat :: "real option"
  p_lng :: "real option"
  p_created_at :: "timestamp option"
  p_updated_at :: "timestamp option"

definition empty_draft :: draft where
  "empty_draft =
     \<lparr>p_id = None, p_name = None, p_postal_code = None, p_address = None, p_phone = None,
      p_email = None, p_contract_type = None, p_snow_removal_area = None,
      p_contract_start_date = None, p_contract_end_date = None, p_billing_amount = None,
      p_lat = None, p_lng = None, p_created_at = None, p_updated_at = None\<rparr>"

text \<open>
  The geocoding collaborator: \<open>geocode\<close> rejects, or resolves to a response whose
  \<open>results\<close> may be missing; a result may lack its \<open>geometry\<close>, otherwise it gives the
  latitude and longitude of \<open>geometry.location\<close>.  The state \<open>geocoder\<close> is \<open>null\<close> until
  the loader has finished.
\<close>

type_synonym geocode_result = "(real \<times> real) option"

datatype geocode_response = GeocodeRejected | GeocodeResponse "geocode_result list option"

type_synonym geocoder = "jsstring \<Rightarrow> geocode_response"

definition geocodeAddress :: "geocoder option \<Rightarrow> jsstring \<Rightarrow> (real \<times> real) option" where
  "geocodeAddress geocoder addr =
     (case geocoder of
        None \<Rightarrow> None
      | Some geocode \<Rightarrow>
          (case geocode addr of
             GeocodeRejected \<Rightarrow> None
           | GeocodeResponse None \<Rightarrow> None
           | GeocodeResponse (Some []) \<Rightarrow> None
           | GeocodeResponse (Some (None # rest)) \<Rightarrow> None
           | GeocodeResponse (Some (Some loc # rest)) \<Rightarrow> Some loc))"

text \<open>
  \<open>handleSubmit\<close> of the form; the result is the argument of the call
  \<open>onSubmit(formData)\<close>, which every path reaches.
\<close>

definition form_handleSubmit :: "geocoder option \<Rightarrow> draft \<Rightarrow> draft" where
  "form_handleSubmit geocoder formData =
     (case p_address formData of
        None \<Rightarrow> formData
      | Some a \<Rightarrow>
          if a = [] then formData
          else (case geocodeAddress geocoder a of
                  Some coordinates \<Rightarrow>
                    formData\<lparr>p_lat := Some (fst coordinates), p_lng := Some (snd coordinates)\<rparr>
                | None \<Rightarrow> formData))"

text \<open>
  The address-lookup collaborator: the \<open>fetch\<close> (or the parsing of its body) fails, or
  gives a body whose \<open>results\<close> may be missing; a result holds \<open>address1\<close>, \<open>address2\<close>
  and \<open>address3\<close>.
\<close>

datatype lookup_response =
  LookupFailed | LookupBody "(jsstring \<times> jsstring \<times> jsstring) list option"

text \<open>
  \<open>handlePostalCodeChange\<close>, called with the value of the input field at every change:
  the new draft, and the postal codes sent to the address-lookup collaborator.
\<close>

definition handlePostalCodeChange ::
  "(jsstring \<Rightarrow> lookup_response) \<Rightarrow> geocoder option \<Rightarrow> jsstring \<Rightarrow> draft
   \<Rightarrow> draft \<times> jsstring list" where
  "handlePostalCodeChange zipcloud geocoder code formData =
     (let formData = formData\<lparr>p_postal_code := Some code\<rparr>
      in if length code = 7
         then (case zipcloud code of
                 LookupFailed \<Rightarrow> (formData, [code])
               | LookupBody None \<Rightarrow> (formData, [code])
               | LookupBody (Some []) \<Rightarrow> (formData, [code])
               | LookupBody (Some ((address1, address2, address3) # rest)) \<Rightarrow>
                   (let fullAddress = address1 @ address2 @ address3;
                        formData = formData\<lparr>p_address := Some fullAddress\<rparr>
                    in case geocodeAddress geocoder fullAddress of
                         Some coordinates \<Rightarrow>
                           (formData\<lparr>p_lat := Some (fst coordinates),
                                     p_lng := Some (snd coordinates)\<rparr>, [code])
                       | None \<Rightarrow> (formData, [code])))
         else (formData, []))"

text \<open>The field values of a sequence of changes, handled one after the other.\<close>

fun postal_code_changes ::
  "(jsstring \<Rightarrow> lookup_response) \<Rightarrow> geocoder option \<Rightarrow> jsstring list \<Rightarrow> draft
   \<Rightarrow> draft \<times> jsstring list" where
  "postal_code_changes zipcloud geocoder [] formData = (formData, [])"
| "postal_code_changes zipcloud geocoder (code # codes) formData =
     (let (formData1, sent1) = handlePostalCodeChange zipcloud geocoder code formData;
          (formData2, sent2) = postal_code_changes zipcloud geocoder codes formData1
      in (formData2, sent1 @ sent2))"

text \<open>
  \<open>toHalfWidth\<close> and \<open>formatPostalCode\<close> (CustomerList).  The full-width digits are
  the code units FF10 to FF19; the four dashes replaced by a hyphen are 2010, FF0D, 2015
  and 30FC.
\<close>

definition toHalfWidth :: "jsstring \<Rightarrow> jsstring" where
  "toHalfWidth str =
     map (\<lambda>u. if u \<in> {0x2010, 0xFF0D, 0x2015, 0x30FC} then 0x2D else u)
       (map (\<lambda>u. if 0xFF10 \<le> u \<and> u \<le> 0xFF19 then u - 0xFEE0 else u) str)"

definition formatPostalCode :: "jsstring \<Rightarrow> jsstring" where
  "formatPostalCode v =
     (let half = toHalfWidth v;
          numbers = filter (\<lambda>u. (0x30 \<le> u \<and> u \<le> 0x39) \<or> u = 0x2D) half
      in filter (\<lambda>u. u \<noteq> 0x2D) numbers)"

section \<open>Record Store (App)\<close>

text \<open>\<open>v || d\<close> for an optional string, number or contract tier \<open>v\<close>.\<close>

definition or_string :: "jsstring option \<Rightarrow> jsstring \<Rightarrow> jsstring" where
  "or_string v d = (case v of None \<Rightarrow> d | Some s \<Rightarrow> if s = [] then d else s)"

definition or_number :: "real option \<Rightarrow> real \<Rightarrow> real" where
  "or_number v d = (case v of None \<Rightarrow> d | Some x \<Rightarrow> if x = 0 then d else x)"

definition or_contract_type :: "contract_type option \<Rightarrow> contract_type \<Rightarrow> contract_type" where
  "or_contract_type v d = (case v of None \<Rightarrow> d | Some t \<Rightarrow> t)"

text \<open>A property of \<open>{...selectedCustomer, ...data}\<close>: the draft's value where it has one.\<close>

definition spread :: "'a \<Rightarrow> 'a option \<Rightarrow> 'a" where
  "spread old v = (case v of None \<Rightarrow> old | Some x \<Rightarrow> x)"

datatype view = list_view | map_view

record app =
  view :: view
  showForm :: bool
  selectedCustomer :: "customer option"
  customers :: "customer list"

text \<open>
  \<open>handleSubmit\<close> of the application.  \<open>random_id\<close> is the identifier drawn from
  \<open>Math.random()\<close>; \<open>now1\<close> and \<open>now2\<close> are the readings of the clock by the first and
  the second \<open>new Date()\<close> of the call, in evaluation order (an update makes one).
\<close>

definition App_handleSubmit :: "jsstring \<Rightarrow> timestamp \<Rightarrow> timestamp \<Rightarrow> draft \<Rightarrow> app \<Rightarrow> app" where
  "App_handleSubmit random_id now1 now2 data s =
     (case selectedCustomer s of
        Some sel \<Rightarrow>
          (let updated =
                 \<lparr>id_c = spread (id_c sel) (p_id data),
                  name = spread (name sel) (p_name data),
                  postal_code = spread (postal_code sel) (p_postal_code data),
                  address = spread (address sel) (p_address data),
                  phone = spread (phone sel) (p_phone data),
                  email = spread (email sel) (p_email data),
                  contract_type = spread (contract_type sel) (p_contract_type data),
                  snow_removal_area = spread (snow_removal_area sel) (p_snow_removal_area data),
                  contract_start_date = spread (contract_start_date sel) (p_contract_start_date data),
                  contract_end_date = spread (contract_end_date sel) (p_contract_end_date data),
                  billing_amount = spread (billing_amount sel) (p_billing_amount data),
                  lat = (case p_lat data of None \<Rightarrow> lat sel | Some x \<Rightarrow> Some x),
                  lng = (case p_lng data of None \<Rightarrow> lng sel | Some x \<Rightarrow> Some x),
                  created_at = spread (created_at sel) (p_created_at data),
                  updated_at = now1\<rparr>
           in s\<lparr>customers := map (\<lambda>c. if id_c c = id_c sel then updated else c) (customers s),
                showForm := False, selectedCustomer := None\<rparr>)
      | None \<Rightarrow>
          (let newCustomer =
                 \<lparr>id_c = random_id,
                  name = or_string (p_name data) [],
                  postal_code = or_string (p_postal_code data) [],
                  address = or_string (p_address data) [],
                  phone = or_string (p_phone data) [],
                  email = or_string (p_email data) [],
                  contract_type = or_contract_type (p_contract_type data) basic,
                  snow_removal_area = or_number (p_snow_removal_area data) 0,
                  contract_start_date = or_string (p_contract_start_date data) [],
                  contract_end_date = or_string (p_contract_end_date data) [],
                  billing_amount = or_number (p_billing_amount data) 0,
                  lat = Some (or_number (p_lat data) 0),
                  lng = Some (or_number (p_lng data) 0),
                  created_at = now1,
                  updated_at = now2\<rparr>
           in s\<lparr>customers := customers s @ [newCustomer],
                showForm := False, selectedCustomer := None\<rparr>))"

definition handleEdit :: "customer \<Rightarrow> app \<Rightarrow> app" where
  "handleEdit customer s = s\<lparr>selectedCustomer := Some customer, showForm := True\<rparr>"

text \<open>\<open>confirmed\<close> is the answer to \<open>window.confirm\<close>.\<close>

definition handleDelete :: "bool \<Rightarrow> customer \<Rightarrow> app \<Rightarrow> app" where
  "handleDelete confirmed customer s =
     (if confirmed
      then s\<lparr>customers := filter (\<lambda>c. id_c c \<noteq> id_c customer) (customers s),
             selectedCustomer := None\<rparr>
      else s)"

definition handleShowOnMap :: "customer \<Rightarrow> app \<Rightarrow> app" where
  "handleShowOnMap customer s = s\<lparr>view := map_view, selectedCustomer := Some customer\<rparr>"

definition handleAddNew :: "app \<Rightarrow> app" where
  "handleAddNew s = s\<lparr>selectedCustomer := None, showForm := True\<rparr>"

definition handleCancel :: "app \<Rightarrow> app" where
  "handleCancel s = s\<lparr>showForm := False, selectedCustomer := None\<rparr>"

text \<open>
  The operations on the store as the user interface offers them: the list and the map
  pass a record of the current collection (here by its index) to \<open>handleEdit\<close>,
  \<open>handleDelete\<close>, \<open>handleShowOnMap\<close> and \<open>setSelectedCustomer\<close>; the form passes its
  draft to \<open>handleSubmit\<close>.
\<close>

datatype app_event =
  Submit jsstring timestamp timestamp draft
  | Edit nat
  | Delete bool nat
  | ShowOnMap nat
  | SelectOnMap nat
  | AddNew
  | Cancel
  | SetView view

fun app_step :: "app_event \<Rightarrow> app \<Rightarrow> app" where
  "app_step (Submit random_id now1 now2 data) s = App_handleSubmit random_id now1 now2 data s"
| "app_step (Edit i) s = (if i < length (customers s) then handleEdit (customers s ! i) s else s)"
| "app_step (Delete confirmed i) s =
     (if i < length (customers s) then handleDelete confirmed (customers s ! i) s else s)"
| "app_step (ShowOnMap i) s =
     (if i < length (customers s) then handleShowOnMap (customers s ! i) s else s)"
| "app_step (SelectOnMap i) s =
     (if i < length (customers s) then s\<lparr>selectedCustomer := Some (customers s ! i)\<rparr> else s)"
| "app_step AddNew s = handleAddNew s"
| "app_step Cancel s = handleCancel s"
| "app_step (SetView v) s = s\<lparr>view := v\<rparr>"

definition app_run :: "app_event list \<Rightarrow> app \<Rightarrow> app" where
  "app_run es s = foldl (\<lambda>s e. app_step e s) s es"

definition initial_app :: app where
  "initial_app = \<lparr>view = list_view, showForm = False, selectedCustomer = None, customers = []\<rparr>"

text \<open>Every record of the collection, and the selected one, has both coordinates.\<close>

definition coordinates_present :: "app \<Rightarrow> bool" where
  "coordinates_present s \<longleftrightarrow>
     list_all has_coordinates (customers s)
     \<and> (case selectedCustomer s of None \<Rightarrow> True | Some c \<Rightarrow> has_coordinates c)"

text \<open>A draft and a geocoder whose every lookup is rejected, for the examples.\<close>

definition tokyo_draft :: draft where
  "tokyo_draft = empty_draft\<lparr>p_name := Some (js ''T''), p_address := Some (js ''Tokyo'')\<rparr>"

definition rejecting :: "geocoder option" where
  "rejecting = Some (\<lambda>addr. GeocodeRejected)"

section \<open>Properties of the Search/Filter Engine\<close>

subsection \<open>Matching regardless of case\<close>






subsection \<open>The sort of V8 meets the requirement of ECMAScript\<close>



lemma consistent_total: "consistent cmp A \<Longrightarrow> a \<in> A \<Longrightarrow> b \<in> A \<Longrightarrow> cmp a b \<le> 0 \<or> cmp b a \<le> 0"
  unfolding consistent_def by (metis less_le_not_le linorder_le_cases)

















subsection \<open>The records returned\<close>












subsection \<open>Stability of the order\<close>

lemma str_less_irrefl: "\<not> str_less a a"
  by (induction a) simp_all














lemma v8_by_name:
  "v8_sort (compare_customers key_name asc) [customer_B, customer_A] = [customer_A, customer_B]"
  by code_simp


subsection \<open>The input collection\<close>

text \<open>
  C2.  With no predicate supplied no \<open>filter\<close> runs, \<open>filtered\<close> is still the input
  array itself, and \<open>sort\<close> reorders the input in place: the collection [B, A] held by
  the caller reads [A, B] after the view has been computed by name, ascending.
\<close>

theorem sort_in_place_changes_input:
  "arrays (heap_of [customer_B, customer_A]) 0 = [customer_B, customer_A]
   \<and> arrays (snd (filteredAndSortedCustomers toLowerCase_table v8_sort 0 no_params key_name asc
                   (heap_of [customer_B, customer_A]))) 0 = [customer_A, customer_B]"
  by (simp add: filteredAndSortedCustomers_def filter_if_def no_params_def Array_sort_def
      heap_of_def v8_by_name)

text \<open>
  As soon as one predicate is supplied, the first \<open>filter\<close> that runs copies the
  collection, the sort works on the copy and the input array is left as it was.
\<close>

lemma filter_if_frame:
  assumes "input < next_ref (snd st)"
  shows "arrays (snd (filter_if q p st)) input = arrays (snd st) input
       \<and> input < next_ref (snd (filter_if q p st))"
  using assms by (simp add: filter_if_def Array_filter_def split: option.split)

lemma filter_if_fresh:
  assumes "input < next_ref (snd st)" "fst st \<noteq> input \<or> truthy q"
  shows "fst (filter_if q p st) \<noteq> input"
  using assms by (auto simp: filter_if_def Array_filter_def truthy_def split: option.split)

lemma filtered_copy_keeps_input:
  assumes "input < next_ref h"
    and "truthy (sp_name sp) \<or> truthy (sp_postal_code sp) \<or> truthy (sp_address sp)
         \<or> truthy (sp_phone sp) \<or> truthy (sp_contract_type sp)"
  shows "arrays (snd (filteredAndSortedCustomers toLowerCase srt input sp sortField sortDirection h)) input
         = arrays h input"
proof -
  define s1 where "s1 = filter_if (sp_name sp)
                 (\<lambda>v c. str_includes (toLowerCase (name c)) (toLowerCase v)) (input, h)"
  define s2 where "s2 = filter_if (sp_postal_code sp) (\<lambda>v c. str_includes (postal_code c) v) s1"
  define s3 where "s3 = filter_if (sp_address sp)
                 (\<lambda>v c. str_includes (toLowerCase (address c)) (toLowerCase v)) s2"
  define s4 where "s4 = filter_if (sp_phone sp) (\<lambda>v c. str_includes (phone c) v) s3"
  define s5 where "s5 = filter_if (sp_contract_type sp)
                 (\<lambda>v c. contract_type_string (contract_type c) = v) s4"
  have f1: "arrays (snd s1) input = arrays h input \<and> input < next_ref (snd s1)"
    unfolding s1_def using filter_if_frame [of input "(input, h)"] assms(1) by simp
  have f2: "arrays (snd s2) input = arrays h input \<and> input < next_ref (snd s2)"
    unfolding s2_def using filter_if_frame [of input s1] f1 by simp
  have f3: "arrays (snd s3) input = arrays h input \<and> input < next_ref (snd s3)"
    unfolding s3_def using filter_if_frame [of input s2] f2 by simp
  have f4: "arrays (snd s4) input = arrays h input \<and> input < next_ref (snd s4)"
    unfolding s4_def using filter_if_frame [of input s3] f3 by simp
  have f5: "arrays (snd s5) input = arrays h input \<and> input < next_ref (snd s5)"
    unfolding s5_def using filter_if_frame [of input s4] f4 by simp
  have n1: "fst s1 \<noteq> input \<or> \<not> truthy (sp_name sp)"
    unfolding s1_def using filter_if_fresh [of input "(input, h)" "sp_name sp"] assms(1)
    by auto
  have n2: "fst s2 \<noteq> input \<or> \<not> (truthy (sp_name sp) \<or> truthy (sp_postal_code sp))"
    unfolding s2_def using filter_if_fresh [of input s1 "sp_postal_code sp"] f1 n1 by auto
  have n3: "fst s3 \<noteq> input \<or> \<not> (truthy (sp_name sp) \<or> truthy (sp_postal_code sp)
       \<or> truthy (sp_address sp))"
    unfolding s3_def using filter_if_fresh [of input s2 "sp_address sp"] f2 n2 by auto
  have n4: "fst s4 \<noteq> input \<or> \<not> (truthy (sp_name sp) \<or> truthy (sp_postal_code sp)
       \<or> truthy (sp_address sp) \<or> truthy (sp_phone sp))"
    unfolding s4_def using filter_if_fresh [of input s3 "sp_phone sp"] f3 n3 by auto
  have n5: "fst s5 \<noteq> input"
    unfolding s5_def using filter_if_fresh [of input s4 "sp_contract_type sp"] f4 n4 assms(2)
    by auto
  have "filteredAndSortedCustomers toLowerCase srt input sp sortField sortDirection h =
        Array_sort srt (compare_customers sortField sortDirection) (fst s5) (snd s5)"
    by (simp add: filteredAndSortedCustomers_def Let_def s1_def s2_def s3_def s4_def s5_def)
  then show ?thesis using n5 f5 by (simp add: Array_sort_def)
qed

section \<open>Properties of the Map Synchronizer\<close>

subsection \<open>Markers\<close>

lemma map_listener_customer_make_markers:
  "map listener_customer (make_markers active w cs) = cs"
  by (induction cs arbitrary: w) simp_all

text \<open>
  C7.  For every record collection, search string and filter state, the markers that
  synchronisation puts on a loaded map are, in order, one for each displayed record
  that has both a latitude and a longitude, and none for any other record; without a
  map it creates no marker at all.
\<close>

theorem markers_only_for_geocoded:
  "map listener_customer
     (markers (sync_markers toLowerCase toNumber records searchQuery filters s)) =
     (if map_loaded s
      then filter has_coordinates (filteredCustomers toLowerCase toNumber records searchQuery filters)
      else map listener_customer (markers s))"
  by (simp add: sync_markers_def Let_def map_listener_customer_make_markers)

text \<open>Of three displayed records the one without coordinates gets no marker.\<close>

theorem markers_only_for_geocoded_witness:
  "map listener_customer
     (markers (sync_markers toLowerCase_table (\<lambda>s. None)
                [customer_Tokyo, customer_A, customer_Sapporo] [] no_filters
                (initial_map\<lparr>map_loaded := True\<rparr>))) = [customer_Tokyo, customer_Sapporo]"
proof -
  have "filter has_coordinates
          (filteredCustomers toLowerCase_table (\<lambda>s. None)
             [customer_Tokyo, customer_A, customer_Sapporo] [] no_filters)
        = [customer_Tokyo, customer_Sapporo]"
    by (simp add: filteredCustomers_def no_filters_def has_coordinates_def customer_Tokyo_def
        customer_Sapporo_def customer_A_def blank_customer_def)
  then show ?thesis
    using markers_only_for_geocoded [of toLowerCase_table "\<lambda>s. None"
      "[customer_Tokyo, customer_A, customer_Sapporo]" "[]" no_filters
      "initial_map\<lparr>map_loaded := True\<rparr>"]
    by simp
qed

subsection \<open>Popups\<close>

text \<open>
  C3.  After one render of two markers, a click on the first marker and then a click
  on the second leave two popups open.  Both listeners were created by the same effect
  and hold the \<open>activeInfoWindow\<close> of that render, which is \<open>null\<close>: the second listener
  closes nothing before it opens its popup.
\<close>

theorem two_clicks_two_popups:
  "open_windows (run toLowerCase_table (\<lambda>s. None) two_clicks initial_map) = [1, 0]
   \<and> \<not> length (open_windows (run toLowerCase_table (\<lambda>s. None) two_clicks initial_map)) \<le> 1"
  by (simp add: two_clicks_def run_def initial_map_def sync_markers_def filteredCustomers_def
      Let_def no_filters_def has_coordinates_def click_marker_def open_window_def
      close_window_def customer_Tokyo_def customer_Sapporo_def customer_A_def
      blank_customer_def)

text \<open>
  The effect of a render closes the active popup.  When it runs between two clicks, the
  second click finds no popup open and leaves its own as the only one.
\<close>

lemma removeAll_only: "set ws \<subseteq> {w} \<Longrightarrow> removeAll w ws = []"
  by (induction ws) auto

lemma sync_markers_closes:
  assumes "popup_inv s" "map_loaded s"
  shows "open_windows (sync_markers toLowerCase toNumber cs q f s) = []"
    and "\<forall>m\<in>set (markers (sync_markers toLowerCase toNumber cs q f s)).
           listener_activeInfoWindow m = activeInfoWindow s"
proof -
  show "open_windows (sync_markers toLowerCase toNumber cs q f s) = []"
    using assms
    by (cases "activeInfoWindow s")
       (auto simp: popup_inv_def sync_markers_def Let_def close_window_def removeAll_only)
  have "\<forall>m\<in>set (make_markers a w xs). listener_activeInfoWindow m = a" for a w xs
    by (induction xs arbitrary: w) simp_all
  with assms show "\<forall>m\<in>set (markers (sync_markers toLowerCase toNumber cs q f s)).
           listener_activeInfoWindow m = activeInfoWindow s"
    by (simp add: sync_markers_def Let_def)
qed

lemma click_after_render_one_popup:
  assumes "popup_inv s" "map_loaded s"
    and "m \<in> set (markers (sync_markers toLowerCase toNumber cs q f s))"
  shows "open_windows (click_marker m (sync_markers toLowerCase toNumber cs q f s)) = [infoWindow m]"
  using sync_markers_closes [OF assms(1,2), of toLowerCase toNumber cs q f] assms(3)
  by (simp add: click_marker_def open_window_def close_window_def split: option.split)

lemma click_render_click_one_popup:
  "open_windows (run toLowerCase_table (\<lambda>s. None) click_render_click initial_map) = [3]"
  by (simp add: click_render_click_def run_def initial_map_def sync_markers_def
      filteredCustomers_def Let_def no_filters_def has_coordinates_def click_marker_def
      open_window_def close_window_def customer_Tokyo_def customer_Sapporo_def customer_A_def
      blank_customer_def)

subsection \<open>Route computation and selection\<close>

lemma slice_1_m1: "slice 1 (- 1) xs = butlast (tl xs)"
proof (cases xs)
  case Nil
  then show ?thesis by (simp add: slice_def)
next
  case (Cons x rest)
  have "nat (int (length rest) - 1) = length rest - 1" by arith
  with Cons show ?thesis by (simp add: slice_def Let_def butlast_conv_take)
qed

lemma calculateRoute_requests:
  "requests (calculateRoute m r sel route shown) =
     (if m \<and> r \<and> 2 \<le> length sel
      then [\<lparr>origin = (lat (hd sel), lng (hd sel)),
             destination = (lat (last sel), lng (last sel)),
             waypoints = map (\<lambda>c. \<lparr>location = (lat c, lng c), stopover = True\<rparr>) (butlast (tl sel)),
             optimizeWaypoints = True, travel_mode = DRIVING\<rparr>]
      else [])"
proof (cases "m \<and> r \<and> 2 \<le> length sel")
  case True
  then have "sel \<noteq> []" by auto
  then have "sel ! 0 = hd sel" "sel ! (length sel - 1) = last sel"
    by (simp_all add: hd_conv_nth last_conv_nth)
  with True show ?thesis
    by (simp add: calculateRoute_def Let_def slice_1_m1 split: route_response.split)
next
  case False
  then show ?thesis by (auto simp: calculateRoute_def)
qed

lemma select_customers_geocoded:
  assumes "set selectedIds \<subseteq> set (option_values displayed)"
    and "distinct (map id_c displayed)"
  shows "\<forall>c\<in>set (select_customers selectedIds displayed). has_coordinates c"
proof
  fix c
  assume "c \<in> set (select_customers selectedIds displayed)"
  then have c: "c \<in> set displayed" "id_c c \<in> set selectedIds"
    by (simp_all add: select_customers_def)
  with assms(1) obtain c' where c': "c' \<in> set displayed" "has_coordinates c'" "id_c c' = id_c c"
    by (auto simp: option_values_def)
  with assms(2) c(1) have "c' = c"
    by (metis distinct_map inj_on_def)
  with c' show "has_coordinates c" by simp
qed

text \<open>
  C8.  For a selection made through the selection list: the routing collaborator is
  called only when the selection holds at least two records with coordinates, never
  when it holds fewer than two records; the one request it receives has the first
  selected record as origin, the last as destination and the ones in between as
  waypoints.
\<close>

theorem calculateRoute_invoked:
  assumes "set selectedIds \<subseteq> set (option_values displayed)"
    and "distinct (map id_c displayed)"
  shows
    "(requests (calculateRoute m r (select_customers selectedIds displayed) route shown) \<noteq> []
        \<longrightarrow> 2 \<le> length (filter has_coordinates (select_customers selectedIds displayed)))
     \<and> (length (select_customers selectedIds displayed) < 2
        \<longrightarrow> requests (calculateRoute m r (select_customers selectedIds displayed) route shown) = [])
     \<and> (requests (calculateRoute m r (select_customers selectedIds displayed) route shown) \<noteq> []
        \<longrightarrow> requests (calculateRoute m r (select_customers selectedIds displayed) route shown) =
            [\<lparr>origin = (lat (hd (select_customers selectedIds displayed)),
                        lng (hd (select_customers selectedIds displayed))),
              destination = (lat (last (select_customers selectedIds displayed)),
                             lng (last (select_customers selectedIds displayed))),
              waypoints = map (\<lambda>c. \<lparr>location = (lat c, lng c), stopover = True\<rparr>)
                            (butlast (tl (select_customers selectedIds displayed))),
              optimizeWaypoints = True, travel_mode = DRIVING\<rparr>])"
proof -
  have "filter has_coordinates (select_customers selectedIds displayed) =
        select_customers selectedIds displayed"
    using select_customers_geocoded [OF assms] by (simp add: filter_id_conv)
  then show ?thesis
    by (simp add: calculateRoute_requests)
qed

text \<open>Three of four displayed records selected; the record without coordinates has no option.\<close>

theorem calculateRoute_invoked_witness:
  "set [js ''t'', js ''s'', js ''o''] \<subseteq> set (option_values displayed4)
   \<and> distinct (map id_c displayed4)
   \<and> select_customers [js ''t'', js ''s'', js ''o''] displayed4 =
       [customer_Tokyo, customer_Sapporo, customer_Otaru]
   \<and> requests (calculateRoute True True (select_customers [js ''t'', js ''s'', js ''o''] displayed4)
        (\<lambda>request. RouteError :: unit route_response) None) =
       [\<lparr>origin = (Some 35.6762, Some 139.6503), destination = (Some 43.1907, Some 140.9947),
         waypoints = [\<lparr>location = (Some 43.0618, Some 141.3545), stopover = True\<rparr>],
         optimizeWaypoints = True, travel_mode = DRIVING\<rparr>]"
proof -
  have ids: "set [js ''t'', js ''s'', js ''o''] \<subseteq> set (option_values displayed4)"
    by (simp add: option_values_def displayed4_def has_coordinates_def customer_Tokyo_def
        customer_Sapporo_def customer_Otaru_def customer_A_def blank_customer_def js_def)
  have dist: "distinct (map id_c displayed4)"
    by (simp add: displayed4_def customer_Tokyo_def customer_Sapporo_def customer_Otaru_def
        customer_A_def blank_customer_def js_def)
  have sel: "select_customers [js ''t'', js ''s'', js ''o''] displayed4 =
       [customer_Tokyo, customer_Sapporo, customer_Otaru]"
    by (simp add: select_customers_def displayed4_def customer_Tokyo_def customer_Sapporo_def
        customer_Otaru_def customer_A_def blank_customer_def js_def)
  have inv: "requests (calculateRoute True True (select_customers [js ''t'', js ''s'', js ''o''] displayed4)
        (\<lambda>request. RouteError :: unit route_response) None) \<noteq> []"
    unfolding sel by (simp add: calculateRoute_def Let_def)
  show ?thesis
    using calculateRoute_invoked [OF ids dist, of True True "\<lambda>request. RouteError :: unit route_response" None]
      ids dist inv
    by (simp add: sel customer_Tokyo_def customer_Sapporo_def customer_Otaru_def blank_customer_def)
qed

section \<open>Properties of the Form Controller\<close>

text \<open>The lookup is sent exactly when the value of the field has seven code units.\<close>

lemma handlePostalCodeChange_sent:
  "snd (handlePostalCodeChange zipcloud geocoder code formData) =
     (if length code = 7 then [code] else [])"
  by (simp add: handlePostalCodeChange_def Let_def
      split: lookup_response.split option.split list.split prod.split)

text \<open>
  C4.  \<open>formatPostalCode\<close> turns "123-4567" into "1234567", but the form does not call
  it: \<open>handlePostalCodeChange\<close> receives the value of the field as typed.  For the
  value "123-4567" (eight code units, seven digits) it sends no lookup and stores the
  value with its hyphen; while that value is typed key by key, the one lookup goes out
  for "123-456", which has seven code units and six digits.
\<close>

theorem postal_lookup_on_raw_length:
  "formatPostalCode (js ''123-4567'') = js ''1234567''
   \<and> snd (handlePostalCodeChange zipcloud geocoder (js ''123-4567'') formData) = []
   \<and> p_postal_code (fst (handlePostalCodeChange zipcloud geocoder (js ''123-4567'') formData))
       = Some (js ''123-4567'')
   \<and> snd (postal_code_changes zipcloud geocoder (tl (prefixes (js ''123-4567''))) formData)
       = [js ''123-456'']"
  by (simp add: handlePostalCodeChange_sent formatPostalCode_def toHalfWidth_def js_def
        split_beta Let_def)
     (simp add: handlePostalCodeChange_def)

text \<open>The ways a lookup yields no coordinate pair.\<close>

lemma geocodeAddress_no_pair:
  "geocodeAddress None addr = None"
  "geocode addr = GeocodeRejected \<Longrightarrow> geocodeAddress (Some geocode) addr = None"
  "geocode addr = GeocodeResponse None \<Longrightarrow> geocodeAddress (Some geocode) addr = None"
  "geocode addr = GeocodeResponse (Some []) \<Longrightarrow> geocodeAddress (Some geocode) addr = None"
  "geocode addr = GeocodeResponse (Some (None # rest)) \<Longrightarrow> geocodeAddress (Some geocode) addr = None"
  by (simp_all add: geocodeAddress_def)

text \<open>
  C6.  When the geocoding lookup for the draft's address yields no coordinate pair (no
  geocoder, a rejected request, no result, no geometry), submission goes on and hands
  over the draft as it is: its coordinates are the ones it had, absent if it had none,
  and no other field changes.
\<close>

theorem geocoding_failure_keeps_draft:
  assumes "\<forall>a. p_address formData = Some a \<and> a \<noteq> [] \<longrightarrow> geocodeAddress geocoder a = None"
  shows "form_handleSubmit geocoder formData = formData"
  using assms by (auto simp: form_handleSubmit_def split: option.splits)

text \<open>A draft with the address "Tokyo" and a geocoder that rejects the request.\<close>

theorem geocoding_failure_keeps_draft_witness:
  "geocodeAddress rejecting (js ''Tokyo'') = None
   \<and> form_handleSubmit rejecting tokyo_draft = tokyo_draft
   \<and> p_lat (form_handleSubmit rejecting tokyo_draft) = None
   \<and> p_lng (form_handleSubmit rejecting tokyo_draft) = None"
proof -
  have fails: "\<forall>a. p_address tokyo_draft = Some a \<and> a \<noteq> [] \<longrightarrow> geocodeAddress rejecting a = None"
    by (simp add: geocodeAddress_def rejecting_def)
  have "geocodeAddress rejecting (js ''Tokyo'') = None"
    by (simp add: geocodeAddress_def rejecting_def)
  with geocoding_failure_keeps_draft [OF fails] show ?thesis
    by (simp add: tokyo_draft_def empty_draft_def)
qed

section \<open>Properties of the Record Store\<close>

text \<open>
  C5.  The record created from a draft without coordinates, whose only geocoding lookup
  was rejected, has the coordinates (0, 0): creation stores 0 for a coordinate the
  draft lacks, where the type of the record and the map provide for its absence.
\<close>

theorem never_geocoded_record_has_coordinates:
  "lat (last (customers (App_handleSubmit (js ''x'') 0 0
                 (form_handleSubmit rejecting tokyo_draft) initial_app))) = Some 0
   \<and> lng (last (customers (App_handleSubmit (js ''x'') 0 0
                 (form_handleSubmit rejecting tokyo_draft) initial_app))) = Some 0"
  by (simp add: App_handleSubmit_def initial_app_def form_handleSubmit_def
      geocodeAddress_def rejecting_def tokyo_draft_def empty_draft_def or_number_def js_def)

text \<open>The map then puts a marker for that record at the position (0, 0).\<close>

lemma never_geocoded_record_gets_marker:
  "map position
     (markers (sync_markers toLowerCase_table (\<lambda>s. None)
        (customers (App_handleSubmit (js ''x'') 0 0
                      (form_handleSubmit rejecting tokyo_draft) initial_app))
        [] no_filters (initial_map\<lparr>map_loaded := True\<rparr>))) = [(Some 0, Some 0)]"
  by (simp add: App_handleSubmit_def initial_app_def form_handleSubmit_def
      geocodeAddress_def rejecting_def tokyo_draft_def empty_draft_def or_number_def
      or_string_def or_contract_type_def js_def sync_markers_def filteredCustomers_def
      no_filters_def has_coordinates_def initial_map_def Let_def)

lemma coordinates_present_submit:
  "coordinates_present s \<Longrightarrow> coordinates_present (App_handleSubmit random_id now1 now2 data s)"
  by (auto simp: coordinates_present_def App_handleSubmit_def Let_def has_coordinates_def
      list_all_iff split: option.splits)

lemma coordinates_present_step: "coordinates_present s \<Longrightarrow> coordinates_present (app_step e s)"
proof (cases e)
  case (Submit random_id now1 now2 data)
  then show "coordinates_present s \<Longrightarrow> coordinates_present (app_step e s)"
    by (simp add: coordinates_present_submit)
qed (auto simp: coordinates_present_def handleEdit_def handleDelete_def handleShowOnMap_def
      handleAddNew_def handleCancel_def list_all_iff split: option.splits)

lemma coordinates_present_run: "coordinates_present s \<Longrightarrow> coordinates_present (app_run es s)"
  unfolding app_run_def
  by (induction es arbitrary: s) (simp_all add: coordinates_present_step)

text \<open>
  The same holds for every record: after any sequence of operations on the initially
  empty store, every record of the collection has both coordinates, geocoded or not.
\<close>

lemma store_records_have_both_coordinates:
  "\<forall>c\<in>set (customers (app_run es initial_app)). lat c \<noteq> None \<and> lng c \<noteq> None"
proof -
  have "coordinates_present initial_app"
    by (simp add: coordinates_present_def initial_app_def)
  then have "coordinates_present (app_run es initial_app)"
    by (rule coordinates_present_run)
  then show ?thesis
    by (simp add: coordinates_present_def list_all_iff has_coordinates_def)
qed

text \<open>
  C10, as stated, fails: the two timestamps come from two readings of the clock, and
  they differ when the clock advances between them.
\<close>

theorem created_timestamps_differ:
  "created_at (last (customers (App_handleSubmit (js ''x'') 1737718782999 1737718783000
                       empty_draft initial_app)))
   \<noteq> updated_at (last (customers (App_handleSubmit (js ''x'') 1737718782999 1737718783000
                       empty_draft initial_app)))"
  by (simp add: App_handleSubmit_def initial_app_def)

lemma or_string_default: "or_string v [] = (case v of None \<Rightarrow> [] | Some s \<Rightarrow> s)"
  by (simp add: or_string_def split: option.split)

lemma or_number_default: "or_number v 0 = (case v of None \<Rightarrow> 0 | Some x \<Rightarrow> x)"
  by (simp add: or_number_def split: option.split)

text \<open>
  C10, amended.  With no record selected, submitting any draft appends one new record:
  every field is the draft's value, or its default where the draft has none (the empty
  string for name, postal code, address, phone, email and the two contract dates,
  \<open>basic\<close> for the contract tier, 0 for the snow-removal area, the billing amount,
  the latitude and the longitude); \<open>created_at\<close> is the first reading of the clock and
  \<open>updated_at\<close> the second.
\<close>

theorem create_fills_defaults:
  assumes "selectedCustomer s = None"
  shows "App_handleSubmit random_id now1 now2 data s =
     s\<lparr>customers := customers s @
          [\<lparr>id_c = random_id,
            name = (case p_name data of None \<Rightarrow> [] | Some v \<Rightarrow> v),
            postal_code = (case p_postal_code data of None \<Rightarrow> [] | Some v \<Rightarrow> v),
            address = (case p_address data of None \<Rightarrow> [] | Some v \<Rightarrow> v),
            phone = (case p_phone data of None \<Rightarrow> [] | Some v \<Rightarrow> v),
            email = (case p_email data of None \<Rightarrow> [] | Some v \<Rightarrow> v),
            contract_type = (case p_contract_type data of None \<Rightarrow> basic | Some v \<Rightarrow> v),
            snow_removal_area = (case p_snow_removal_area data of None \<Rightarrow> 0 | Some v \<Rightarrow> v),
            contract_start_date = (case p_contract_start_date data of None \<Rightarrow> [] | Some v \<Rightarrow> v),
            contract_end_date = (case p_contract_end_date data of None \<Rightarrow> [] | Some v \<Rightarrow> v),
            billing_amount = (case p_billing_amount data of None \<Rightarrow> 0 | Some v \<Rightarrow> v),
            lat = Some (case p_lat data of None \<Rightarrow> 0 | Some v \<Rightarrow> v),
            lng = Some (case p_lng data of None \<Rightarrow> 0 | Some v \<Rightarrow> v),
            created_at = now1,
            updated_at = now2\<rparr>],
       showForm := False, selectedCustomer := None\<rparr>"
  using assms
  by (simp add: App_handleSubmit_def or_string_default or_number_default or_contract_type_def)

text \<open>The empty draft.\<close>

theorem create_fills_defaults_witness:
  "selectedCustomer initial_app = None
   \<and> customers (App_handleSubmit (js ''x'') 7 8 empty_draft initial_app) =
       [blank_customer\<lparr>id_c := js ''x'', lat := Some 0, lng := Some 0,
          created_at := 7, updated_at := 8\<rparr>]"
proof -
  have none: "selectedCustomer initial_app = None" by (simp add: initial_app_def)
  from create_fills_defaults [OF none, of "js ''x''" 7 8 empty_draft] none show ?thesis
    by (simp add: empty_draft_def blank_customer_def initial_app_def)
qed

end
